theory Spec2Isabelle
  imports Main "HOL-Library.Sublist"
begin

section \<open>Python strings and dictionaries\<close>

text \<open>
  A Python \<^verbatim>\<open>str\<close> is a sequence of code points. The embedding uses \<^typ>\<open>string\<close>, whose
  characters are the code points below 256 (ASCII and Latin-1), and reads \<^verbatim>\<open>str.lower()\<close>
  on that range: the letters \<^verbatim>\<open>A\<close>..\<^verbatim>\<open>Z\<close> and the Latin-1 capitals
  (code points 192..222 except the multiplication sign 215) move up by 32, every other code
  point stays. Strings with code points from 256 on are outside the embedding.
\<close>

definition lower_char :: "char \<Rightarrow> char" where
  "lower_char c = (let n = (of_char c :: nat) in
     if (65 \<le> n \<and> n \<le> 90) \<or> (192 \<le> n \<and> n \<le> 222 \<and> n \<noteq> 215)
     then char_of (n + 32) else c)"

definition lower :: "string \<Rightarrow> string" where
  "lower s = map lower_char s"

text \<open>
  The words of the specification, "equal case-insensitively", for a lower-case ASCII target:
  position by position the character is the target's, or the target's is a letter
  \<^verbatim>\<open>a\<close>..\<^verbatim>\<open>z\<close> and the character is its capital.
\<close>

definition either_case :: "char \<Rightarrow> char \<Rightarrow> bool" where
  "either_case c l \<longleftrightarrow> c = l \<or>
     (97 \<le> (of_char l :: nat) \<and> (of_char l :: nat) \<le> 122 \<and> (of_char c :: nat) + 32 = of_char l)"

definition equal_ignoring_case :: "string \<Rightarrow> string \<Rightarrow> bool" where
  "equal_ignoring_case s target = list_all2 either_case s target"

text \<open>The apostrophe, for the places where it ends a literal.\<close>

abbreviation squote :: string where
  "squote \<equiv> [CHR 0x27]"

text \<open>A \<^verbatim>\<open>dict\<close> with string keys and string values.\<close>

type_synonym dict = "string \<rightharpoonup> string"


section \<open>Tool functions\<close>

definition get_weather :: "string \<Rightarrow> dict" where
  "get_weather city =
     (if lower city = ''new york''
      then [''status'' \<mapsto> ''success'',
            ''report'' \<mapsto> ''The weather in New York is sunny with a temperature of 25 degrees''
                           @ '' Celsius (77 degrees Fahrenheit).'']
      else [''status'' \<mapsto> ''error'',
            ''error_message'' \<mapsto> ''Weather information for '' @ squote @ city @ squote
                                  @ '' is not available.''])"

text \<open>
  \<^verbatim>\<open>get_current_time\<close> reads the zone database and the clock. Both belong to the
  environment: \<^verbatim>\<open>ZoneInfo(key)\<close>, \<^verbatim>\<open>datetime.datetime.now(tz)\<close> and
  \<^verbatim>\<open>strftime\<close> are the fields of a record the function receives, and are taken to
  return.
\<close>

record ('tz, 'dt) clock =
  ZoneInfo :: "string \<Rightarrow> 'tz"
  now :: "'tz \<Rightarrow> 'dt"
  strftime :: "'dt \<Rightarrow> string \<Rightarrow> string"

definition get_current_time :: "('tz, 'dt) clock \<Rightarrow> string \<Rightarrow> dict" where
  "get_current_time clk city =
     (if lower city = ''new york''
      then (let tz_identifier = ''America/New_York'';
                tz = ZoneInfo clk tz_identifier;
                now_tz = now clk tz;
                report = ''The current time in '' @ city @ '' is ''
                           @ strftime clk now_tz ''%Y-%m-%d %H:%M:%S %Z%z''
            in [''status'' \<mapsto> ''success'', ''report'' \<mapsto> report])
      else [''status'' \<mapsto> ''error'',
            ''error_message'' \<mapsto> ''Sorry, I don't have timezone information for '' @ city
                                  @ ''.''])"

text \<open>
  What the program prints. A line is the text handed to \<^verbatim>\<open>print\<close>; two of the
  messages start with a symbol beyond Latin-1 (U+2705 and U+274C), kept as a tag in front
  of the text, and one formats a Python list, kept as the list.
\<close>

datatype symbol = WHITE_HEAVY_CHECK_MARK | CROSS_MARK

datatype line =
    Out string
  | Marked symbol string
  | RootAgentCreated string "string list"

text \<open>
  \<^verbatim>\<open>say_hello(name: str = "there")\<close>: the argument is optional, \<open>None\<close> is the call
  without it. The function prints one line and returns the greeting.
\<close>

definition say_hello :: "string option \<Rightarrow> line list \<times> string" where
  "say_hello arg =
     (let name = (case arg of None \<Rightarrow> ''there'' | Some n \<Rightarrow> n)
      in ([Out (''--- Tool: say_hello called with name: '' @ name @ '' ---'')],
          ''Hello, '' @ name @ ''!''))"

definition say_goodbye :: "line list \<times> string" where
  "say_goodbye = ([Out ''--- Tool: say_goodbye called ---''], ''Goodbye! Have a great day.'')"

text \<open>
  The ToolResult invariant of the specification: the status is one of the two tags, and
  each payload key is present exactly under its tag.
\<close>

definition tool_result_invariant :: "dict \<Rightarrow> bool" where
  "tool_result_invariant r \<longleftrightarrow>
     (r ''status'' = Some ''success'' \<or> r ''status'' = Some ''error'') \<and>
     ((''report'' \<in> dom r) = (r ''status'' = Some ''success'')) \<and>
     ((''error_message'' \<in> dom r) = (r ''status'' = Some ''error'')) \<and>
     \<not> (''report'' \<in> dom r \<and> ''error_message'' \<in> dom r)"


section \<open>Exceptions and results\<close>

text \<open>
  An exception value is either an instance of \<^verbatim>\<open>Exception\<close> (its class name and
  \<^verbatim>\<open>str(e)\<close>), or one of the classes that derive from \<^verbatim>\<open>BaseException\<close> only.
  \<^verbatim>\<open>except Exception\<close> handles the first kind alone.
\<close>

datatype exn =
    Exception string string
  | KeyboardInterrupt
  | SystemExit nat
  | CancelledError

fun is_Exception :: "exn \<Rightarrow> bool" where
  "is_Exception (Exception cls msg) = True"
| "is_Exception _ = False"

text \<open>
  A call returns, raises, or is still running when the budget of steps is used up. Printed
  lines are collected on the left of the result.
\<close>

datatype 'a res = Return 'a | Raise exn | OutOfFuel

type_synonym 'a io = "line list \<times> 'a res"

definition print :: "line \<Rightarrow> unit io" where
  "print l = ([l], Return ())"

definition and_then :: "'a io \<Rightarrow> ('a \<Rightarrow> 'b io) \<Rightarrow> 'b io" where
  "and_then m k =
     (case m of
        (out, Return a) \<Rightarrow> (case k a of (out', r) \<Rightarrow> (out @ out', r))
      | (out, Raise x) \<Rightarrow> (out, Raise x)
      | (out, OutOfFuel) \<Rightarrow> (out, OutOfFuel))"

abbreviation newline :: char where
  "newline \<equiv> CHR 0x0A"

text \<open>How an f-string shows a value that is a \<^verbatim>\<open>str\<close> or \<^verbatim>\<open>None\<close>.\<close>

fun py_str :: "string option \<Rightarrow> string" where
  "py_str None = ''None''"
| "py_str (Some s) = s"


section \<open>Events of the run loop\<close>

text \<open>
  The event objects come from the agent framework. The record keeps the attributes
  \<^verbatim>\<open>call_agent_async\<close> reads, each optional as the framework declares it:
  \<^verbatim>\<open>content\<close>, its \<^verbatim>\<open>parts\<close>, the \<^verbatim>\<open>text\<close> of a part, \<^verbatim>\<open>actions\<close>, its
  \<^verbatim>\<open>escalate\<close> flag, and \<^verbatim>\<open>error_message\<close>; \<^verbatim>\<open>is_final_response()\<close> is a
  field.
\<close>

record Part =
  part_text :: "string option"

record Content =
  parts :: "Part list option"

record EventActions =
  escalate :: "bool option"

record Event =
  is_final_response :: bool
  content :: "Content option"
  actions :: "EventActions option"
  error_message :: "string option"

text \<open>
  \<^verbatim>\<open>runner.run_async(...)\<close> is an asynchronous generator: asked for its \<open>k\<close>-th item it
  yields an event, stops, or raises. It need not ever stop.
\<close>

datatype step = Yield Event | StopAsyncIteration | Raises exn

type_synonym run = "nat \<Rightarrow> step"

text \<open>\<^verbatim>\<open>event.content and event.content.parts\<close>: the first part, when there is one.\<close>

definition first_part :: "Event \<Rightarrow> Part option" where
  "first_part ev =
     (case content ev of
        None \<Rightarrow> None
      | Some c \<Rightarrow> (case parts c of None \<Rightarrow> None | Some [] \<Rightarrow> None | Some (p # ps) \<Rightarrow> Some p))"

text \<open>\<^verbatim>\<open>event.actions and event.actions.escalate\<close>.\<close>

definition escalates :: "Event \<Rightarrow> bool" where
  "escalates ev = (case actions ev of None \<Rightarrow> False | Some a \<Rightarrow> escalate a = Some True)"

text \<open>\<^verbatim>\<open>event.error_message or 'No specific message.'\<close>.\<close>

definition error_message_or_default :: "Event \<Rightarrow> string" where
  "error_message_or_default ev =
     (case error_message ev of
        None \<Rightarrow> ''No specific message.''
      | Some m \<Rightarrow> if m = [] then ''No specific message.'' else m)"

text \<open>The body of \<^verbatim>\<open>if event.is_final_response():\<close>, before the \<^verbatim>\<open>break\<close>.\<close>

definition on_final_response :: "Event \<Rightarrow> string option \<Rightarrow> string option" where
  "on_final_response ev final_response_text =
     (case first_part ev of
        Some p \<Rightarrow> part_text p
      | None \<Rightarrow>
          if escalates ev
          then Some (''Agent escalated: '' @ error_message_or_default ev)
          else final_response_text)"

text \<open>
  The \<^verbatim>\<open>async for\<close> loop. Each item asked of the generator costs one unit of fuel.
\<close>

fun event_loop :: "nat \<Rightarrow> run \<Rightarrow> nat \<Rightarrow> string option \<Rightarrow> string option res" where
  "event_loop 0 r k final_response_text = OutOfFuel"
| "event_loop (Suc fuel) r k final_response_text =
     (case r k of
        StopAsyncIteration \<Rightarrow> Return final_response_text
      | Raises x \<Rightarrow> Raise x
      | Yield ev \<Rightarrow>
          if is_final_response ev
          then Return (on_final_response ev final_response_text)
          else event_loop fuel r (Suc k) final_response_text)"

text \<open>
  \<^verbatim>\<open>call_agent_async(query, runner, user_id, session_id)\<close>. The runner is what
  \<^verbatim>\<open>run_async\<close> does for a user, a session and a message.
\<close>

type_synonym runner = "string \<Rightarrow> string \<Rightarrow> string \<Rightarrow> run"

definition call_agent_async :: "nat \<Rightarrow> string \<Rightarrow> runner \<Rightarrow> string \<Rightarrow> string \<Rightarrow> unit io" where
  "call_agent_async fuel query rnr user_id session_id =
     (let shown = [Out (newline # ''>>> User Query: '' @ query)]
      in case event_loop fuel (rnr user_id session_id query) 0
                (Some ''Agent did not produce a final response.'') of
           Return final_response_text \<Rightarrow>
             (shown @ [Out (''<<< Agent Response: '' @ py_str final_response_text)], Return ())
         | Raise (Exception cls msg) \<Rightarrow>
             (shown @ [Out (''<<< Agent Response: '' @ ''Error during agent execution: '' @ msg)],
              Return ())
         | Raise x \<Rightarrow> (shown, Raise x)
         | OutOfFuel \<Rightarrow> (shown, OutOfFuel))"


section \<open>Agent descriptors\<close>

datatype tool = get_weather_tool | say_hello_tool | say_goodbye_tool

datatype Agent =
  Agent (name: string) (model: string) (description: string) (instruction: string)
    (tools: "tool list") (sub_agents: "Agent list")

definition MODEL_GEMINI_2_0_FLASH :: string where
  "MODEL_GEMINI_2_0_FLASH = ''gemini-2.0-flash''"

text \<open>
  The framework around the program: whether \<^verbatim>\<open>Agent(...)\<close> raises for a descriptor,
  whether creating the session or the runner raises, and what \<^verbatim>\<open>run_async\<close> does for
  an agent after the queries the session has already seen.
\<close>

record world =
  Agent_raises :: "Agent \<Rightarrow> exn option"
  create_session_raises :: "exn option"
  Runner_raises :: "exn option"
  run_async :: "Agent \<Rightarrow> string list \<Rightarrow> runner"

definition greeting_descriptor :: Agent where
  "greeting_descriptor =
     Agent ''greeting_agent'' MODEL_GEMINI_2_0_FLASH
       ''Handles simple greetings and hellos using the 'say_hello' tool.''
       (''You are the Greeting Agent. Your ONLY task is to provide a friendly greeting to the user. ''
        @ ''Use the 'say_hello' tool to generate the greeting. ''
        @ ''If the user provides their name, make sure to pass it to the tool. ''
        @ ''Do not engage in any other conversation or tasks.'')
       [say_hello_tool] []"

definition farewell_descriptor :: Agent where
  "farewell_descriptor =
     Agent ''farewell_agent'' MODEL_GEMINI_2_0_FLASH
       ''Handles simple farewells and goodbyes using the 'say_goodbye' tool.''
       (''You are the Farewell Agent. Your ONLY task is to provide a polite goodbye message. ''
        @ ''Use the 'say_goodbye' tool when the user indicates they are leaving or ending the conversation ''
        @ ''(e.g., using words like 'bye', 'goodbye', 'thanks bye', 'see you'). ''
        @ ''Do not perform any other actions.'')
       [say_goodbye_tool] []"

definition root_descriptor :: "Agent \<Rightarrow> Agent \<Rightarrow> Agent" where
  "root_descriptor greeting_agent farewell_agent =
     Agent ''weather_agent_team'' MODEL_GEMINI_2_0_FLASH
       ''The main coordinator agent. Handles weather requests and delegates greetings/farewells to specialists.''
       (''You are the main Weather Agent coordinating a team. Your primary responsibility is to provide weather information. ''
        @ ''Use the 'get_weather' tool ONLY for specific weather requests (e.g., 'weather in London'). ''
        @ ''You have specialized sub-agents: ''
        @ ''1. 'greeting_agent': Handles simple greetings like 'Hi', 'Hello'. Delegate to it for these. ''
        @ ''2. 'farewell_agent': Handles simple farewells like 'Bye', 'See you'. Delegate to it for these. ''
        @ ''Analyze the user's query. If it's a greeting, delegate to 'greeting_agent'. If it's a farewell, delegate to 'farewell_agent'. ''
        @ ''If it's a weather request, handle it yourself using 'get_weather'. ''
        @ ''For anything else, respond appropriately or state you cannot handle it.'')
       [get_weather_tool] [greeting_agent, farewell_agent]"

text \<open>
  \<^verbatim>\<open>try: agent = Agent(...); print(...); return agent\<close>
  \<^verbatim>\<open>except Exception as e: print(...); return None\<close>, with the word naming the agent in
  the failure message.
\<close>

definition created_line :: "Agent \<Rightarrow> line" where
  "created_line agent =
     Marked WHITE_HEAVY_CHECK_MARK
       ('' Agent '' @ squote @ name agent @ squote @ '' created using model '' @ squote
        @ model agent @ squote @ ''.'')"

definition create_greeting_agent :: "world \<Rightarrow> Agent option io" where
  "create_greeting_agent w =
     (case Agent_raises w greeting_descriptor of
        None \<Rightarrow> ([created_line greeting_descriptor], Return (Some greeting_descriptor))
      | Some (Exception cls msg) \<Rightarrow>
          ([Marked CROSS_MARK ('' Could not create Greeting agent. Error: '' @ msg)], Return None)
      | Some x \<Rightarrow> ([], Raise x))"

definition create_farewell_agent :: "world \<Rightarrow> Agent option io" where
  "create_farewell_agent w =
     (case Agent_raises w farewell_descriptor of
        None \<Rightarrow> ([created_line farewell_descriptor], Return (Some farewell_descriptor))
      | Some (Exception cls msg) \<Rightarrow>
          ([Marked CROSS_MARK ('' Could not create Farewell agent. Error: '' @ msg)], Return None)
      | Some x \<Rightarrow> ([], Raise x))"

definition create_root_agent :: "world \<Rightarrow> Agent option \<Rightarrow> Agent option \<Rightarrow> Agent option io" where
  "create_root_agent w greeting_agent farewell_agent =
     (if greeting_agent = None \<or> farewell_agent = None
      then ([Marked CROSS_MARK
               '' Cannot create root agent because one or more sub-agents are missing.''],
            Return None)
      else
        (let root_agent = root_descriptor (the greeting_agent) (the farewell_agent)
         in case Agent_raises w root_agent of
              None \<Rightarrow>
                ([RootAgentCreated (name root_agent) (map name (sub_agents root_agent))],
                 Return (Some root_agent))
            | Some (Exception cls msg) \<Rightarrow>
                ([Marked CROSS_MARK ('' Could not create Root agent. Error: '' @ msg)],
                 Return None)
            | Some x \<Rightarrow> ([], Raise x)))"


section \<open>The conversation driver and the process\<close>

definition raising :: "exn option \<Rightarrow> unit io" where
  "raising fault = (case fault of None \<Rightarrow> ([], Return ()) | Some x \<Rightarrow> ([], Raise x))"

definition run_team_conversation :: "nat \<Rightarrow> world \<Rightarrow> unit io" where
  "run_team_conversation fuel w =
     and_then (print (Out (newline # ''--- Testing Agent Team Delegation ---''))) (\<lambda>_.
     and_then (create_greeting_agent w) (\<lambda>greeting_agent.
     and_then (create_farewell_agent w) (\<lambda>farewell_agent.
     and_then (create_root_agent w greeting_agent farewell_agent) (\<lambda>root_agent.
       if root_agent = None
       then print (Out ''Cannot run conversation without a properly configured root agent.'')
       else
         (let app_name = ''weather_tutorial_agent_team'';
              user_id = ''user_1_agent_team'';
              session_id = ''session_001_agent_team''
          in
          and_then (raising (create_session_raises w)) (\<lambda>_.
          and_then (print (Out (''Session created: App='' @ squote @ app_name @ squote
                                 @ '', User='' @ squote @ user_id @ squote
                                 @ '', Session='' @ squote @ session_id @ squote))) (\<lambda>_.
          and_then (raising (Runner_raises w)) (\<lambda>_.
          and_then (print (Out (''Runner created for agent '' @ squote
                                 @ name (the root_agent) @ squote @ ''.''))) (\<lambda>_.
          and_then (call_agent_async fuel ''Hello there!''
                      (run_async w (the root_agent) []) user_id session_id) (\<lambda>_.
          and_then (call_agent_async fuel ''What is the weather in New York?''
                      (run_async w (the root_agent) [''Hello there!'']) user_id session_id) (\<lambda>_.
          call_agent_async fuel ''Thanks, bye!''
            (run_async w (the root_agent)
               [''Hello there!'', ''What is the weather in New York?''])
            user_id session_id)))))))))))"

definition main :: "nat \<Rightarrow> world \<Rightarrow> unit io" where
  "main fuel w =
     (case run_team_conversation fuel w of
        (out, Raise (Exception cls msg)) \<Rightarrow>
          (out @ [Out (''An error occurred in the main execution: '' @ msg)], Return ())
      | (out, r) \<Rightarrow> (out, r))"

text \<open>
  Running the file as a script: the module body, then \<^verbatim>\<open>main()\<close>.
  \<^verbatim>\<open>load_dotenv()\<close> adds the variables of the \<^verbatim>\<open>.env\<close> file that the environment
  does not have yet; \<^verbatim>\<open>not GOOGLE_API_KEY\<close> holds for an unset and for an empty
  variable.
\<close>

type_synonym environ = "string \<rightharpoonup> string"

definition load_dotenv :: "environ \<Rightarrow> environ \<Rightarrow> environ" where
  "load_dotenv dotenv_file env = dotenv_file ++ env"

definition script :: "nat \<Rightarrow> environ \<Rightarrow> environ \<Rightarrow> world \<Rightarrow> unit io" where
  "script fuel dotenv_file env w =
     (let GOOGLE_API_KEY = load_dotenv dotenv_file env ''GOOGLE_API_KEY''
      in if GOOGLE_API_KEY = None \<or> GOOGLE_API_KEY = Some []
         then ([], Raise (Exception ''ValueError''
                 ''Missing GOOGLE_API_KEY environment variable. Please set it in a .env file or your environment.''))
         else main fuel w)"

text \<open>
  The exit status of the interpreter: 0 after a normal end, 1 after an uncaught exception,
  the low eight bits of the given code for \<^verbatim>\<open>SystemExit\<close>, 130 after an interrupt;
  none while running.
\<close>

fun exit_status :: "unit res \<Rightarrow> nat option" where
  "exit_status (Return u) = Some 0"
| "exit_status (Raise (Exception cls msg)) = Some 1"
| "exit_status (Raise KeyboardInterrupt) = Some 130"
| "exit_status (Raise (SystemExit n)) = Some (n mod 256)"
| "exit_status (Raise CancelledError) = Some 1"
| "exit_status OutOfFuel = None"

text \<open>
  The lines that open and close a turn: the query line is printed before the run loop is
  entered, the response line after it has been left.
\<close>

definition query_line :: "string \<Rightarrow> line" where
  "query_line query = Out (newline # ''>>> User Query: '' @ query)"

definition response_line :: "string \<Rightarrow> line" where
  "response_line t = Out (''<<< Agent Response: '' @ t)"

fun is_turn_line :: "line \<Rightarrow> bool" where
  "is_turn_line (Out s) =
     (prefix (newline # ''>>> User Query: '') s \<or> prefix ''<<< Agent Response: '' s)"
| "is_turn_line (Marked m s) = False"
| "is_turn_line (RootAgentCreated n ns) = False"


text \<open>
  The first \<open>k\<close> items of a run are events that are not final: the loop passes them by.
\<close>

definition skips :: "run \<Rightarrow> nat \<Rightarrow> bool" where
  "skips r k =
     list_all (\<lambda>j. case r j of Yield ev \<Rightarrow> \<not> is_final_response ev
                              | StopAsyncIteration \<Rightarrow> False
                              | Raises x \<Rightarrow> False) [0..<k]"

text \<open>
  The turn lines of a driver run keep the order of the three queries: they are an initial
  segment of query 1, response 1, query 2, response 2, query 3, response 3. A query line
  is thus never printed before the response line of the turn before it.
\<close>

definition sequential_turns :: "line list \<Rightarrow> bool" where
  "sequential_turns out \<longleftrightarrow>
     (\<exists>t1 t2 t3. prefix (filter is_turn_line out)
        [query_line ''Hello there!'', response_line t1,
         query_line ''What is the weather in New York?'', response_line t2,
         query_line ''Thanks, bye!'', response_line t3])"


section \<open>Sample inputs\<close>

text \<open>A clock that always reads the same instant, for evaluating the tools.\<close>

definition sample_clock :: "(string, string \<times> nat) clock" where
  "sample_clock = \<lparr>ZoneInfo = (\<lambda>key. key), now = (\<lambda>tz. (tz, 1762266600)),
     strftime = (\<lambda>dt fmt. ''2025-11-04 09:30:00 EST-0500'')\<rparr>"


text \<open>
  Events: one that is not final, a final one with text, a final one that escalates without
  content, a final one with an empty part list, and a final one whose only part has no text
  while the event escalates.
\<close>

definition thinking_event :: Event where
  "thinking_event =
     \<lparr>is_final_response = False,
      content = Some \<lparr>parts = Some [\<lparr>part_text = Some ''Looking that up''\<rparr>]\<rparr>,
      actions = None, error_message = None\<rparr>"

definition hello_event :: Event where
  "hello_event =
     \<lparr>is_final_response = True,
      content = Some \<lparr>parts = Some [\<lparr>part_text = Some ''Hello, there!''\<rparr>]\<rparr>,
      actions = None, error_message = None\<rparr>"

definition escalating_event :: Event where
  "escalating_event =
     \<lparr>is_final_response = True, content = None,
      actions = Some \<lparr>escalate = Some True\<rparr>, error_message = Some ''quota exceeded''\<rparr>"

definition empty_event :: Event where
  "empty_event =
     \<lparr>is_final_response = True, content = Some \<lparr>parts = Some []\<rparr>,
      actions = Some \<lparr>escalate = None\<rparr>, error_message = None\<rparr>"

definition textless_escalating_event :: Event where
  "textless_escalating_event =
     \<lparr>is_final_response = True,
      content = Some \<lparr>parts = Some [\<lparr>part_text = None\<rparr>]\<rparr>,
      actions = Some \<lparr>escalate = Some True\<rparr>, error_message = Some ''quota exceeded''\<rparr>"

text \<open>
  Runners: one that answers after a first event, one that escalates, one whose final event
  says nothing, one that ends without a final event, one that raises an
  \<^verbatim>\<open>Exception\<close>, one cancelled, one interrupted, and one that never ends.
\<close>

definition answering_runner :: runner where
  "answering_runner user_id session_id query k =
     (if k = 0 then Yield thinking_event
      else if k = 1 then Yield hello_event
      else StopAsyncIteration)"

definition escalating_runner :: runner where
  "escalating_runner user_id session_id query k = Yield escalating_event"

definition empty_runner :: runner where
  "empty_runner user_id session_id query k = Yield empty_event"

definition textless_runner :: runner where
  "textless_runner user_id session_id query k = Yield textless_escalating_event"

definition silent_runner :: runner where
  "silent_runner user_id session_id query k =
     (if k = 0 then Yield thinking_event else StopAsyncIteration)"

definition failing_runner :: runner where
  "failing_runner user_id session_id query k =
     Raises (Exception ''ValueError'' ''Session not found'')"

definition cancelled_runner :: runner where
  "cancelled_runner user_id session_id query k = Raises CancelledError"

definition interrupted_runner :: runner where
  "interrupted_runner user_id session_id query k = Raises KeyboardInterrupt"

definition endless_runner :: runner where
  "endless_runner user_id session_id query k = Yield thinking_event"

text \<open>
  Worlds: one where every call of the framework goes through, one where creating the
  session raises, one where the user interrupts the first turn, and one where the first
  turn never ends.
\<close>

definition quiet_world :: world where
  "quiet_world =
     \<lparr>Agent_raises = (\<lambda>agent. None), create_session_raises = None, Runner_raises = None,
      run_async = (\<lambda>agent history. answering_runner)\<rparr>"

definition broken_session_world :: world where
  "broken_session_world =
     \<lparr>Agent_raises = (\<lambda>agent. None),
      create_session_raises = Some (Exception ''RuntimeError'' ''session store unavailable''),
      Runner_raises = None,
      run_async = (\<lambda>agent history. answering_runner)\<rparr>"

definition interrupted_world :: world where
  "interrupted_world =
     \<lparr>Agent_raises = (\<lambda>agent. None), create_session_raises = None, Runner_raises = None,
      run_async = (\<lambda>agent history. interrupted_runner)\<rparr>"

definition stalled_world :: world where
  "stalled_world =
     \<lparr>Agent_raises = (\<lambda>agent. None), create_session_raises = None, Runner_raises = None,
      run_async = (\<lambda>agent history. endless_runner)\<rparr>"

text \<open>An environment without variables, and one that holds the key.\<close>

definition no_variables :: environ where
  "no_variables = Map.empty"

definition key_in_environ :: environ where
  "key_in_environ = [''GOOGLE_API_KEY'' \<mapsto> ''secret'']"


section \<open>Lower-casing and the recognized city\<close>

lemma lower_char_eq_iff:
  "lower_char c = d \<longleftrightarrow>
     (if (65 \<le> (of_char c :: nat) \<and> (of_char c :: nat) \<le> 90) \<or>
         (192 \<le> (of_char c :: nat) \<and> (of_char c :: nat) \<le> 222 \<and> (of_char c :: nat) \<noteq> 215)
      then (of_char c :: nat) + 32 = of_char d else (of_char c :: nat) = of_char d)"
proof -
  have small: "(of_char c :: nat) \<le> 222 \<Longrightarrow> take_bit 8 ((of_char c :: nat) + 32) = of_char c + 32"
    by (simp add: take_bit_nat_eq_self_iff)
  show ?thesis
    unfolding lower_char_def Let_def
    by (auto simp add: char_of_eq_iff small)
qed

lemma lower_char_ascii_lower:
  assumes "97 \<le> (of_char l :: nat)" "(of_char l :: nat) \<le> 122"
  shows "lower_char c = l \<longleftrightarrow> either_case c l"
proof -
  have "(of_char c :: nat) = of_char l \<longleftrightarrow> c = l" by (simp only: of_char_eq_iff)
  then show ?thesis
    using assms unfolding lower_char_eq_iff either_case_def by auto
qed

lemma lower_char_space: "lower_char c = CHR '' '' \<longleftrightarrow> c = CHR '' ''"
proof -
  have "(of_char c :: nat) = of_char (CHR '' '') \<longleftrightarrow> c = CHR '' ''"
    by (simp only: of_char_eq_iff)
  then show ?thesis
    unfolding lower_char_eq_iff by auto
qed

lemma either_case_space: "either_case c (CHR '' '') \<longleftrightarrow> c = CHR '' ''"
  by (simp add: either_case_def)

lemma lower_char_new_york:
  assumes "l \<in> set ''new york''"
  shows "lower_char c = l \<longleftrightarrow> either_case c l"
proof (cases "l = CHR '' ''")
  case True
  then show ?thesis by (simp add: lower_char_space either_case_space)
next
  case False
  with assms have "97 \<le> (of_char l :: nat) \<and> (of_char l :: nat) \<le> 122" by auto
  then show ?thesis by (simp add: lower_char_ascii_lower)
qed

lemma lower_eq_new_york:
  "lower city = ''new york'' \<longleftrightarrow> equal_ignoring_case city ''new york''"
proof -
  have "lower city = ''new york'' \<longleftrightarrow> list_all2 (\<lambda>c l. lower_char c = l) city ''new york''"
    unfolding lower_def by (simp add: list_all2_eq list_all2_map1)
  also have "\<dots> \<longleftrightarrow> list_all2 either_case city ''new york''"
  proof (rule iffI)
    assume "list_all2 (\<lambda>c l. lower_char c = l) city ''new york''"
    then show "list_all2 either_case city ''new york''"
      by (rule list.rel_mono_strong) (simp only: lower_char_new_york)
  next
    assume "list_all2 either_case city ''new york''"
    then show "list_all2 (\<lambda>c l. lower_char c = l) city ''new york''"
      by (rule list.rel_mono_strong) (simp only: lower_char_new_york)
  qed
  finally show ?thesis unfolding equal_ignoring_case_def .
qed

lemma sublist_middle: "sublist xs (ps @ xs @ ss)"
  unfolding sublist_def by blast

section \<open>The tool functions\<close>

text \<open>
  C1. \<^verbatim>\<open>get_weather(city)\<close> returns the success record with the fixed report sentence
  exactly when \<open>city\<close> equals \<^verbatim>\<open>new york\<close> up to the case of its letters, and otherwise
  the error record whose message quotes \<open>city\<close> as it was given.
\<close>

theorem get_weather_contract:
  "(equal_ignoring_case city ''new york'' \<longrightarrow>
      get_weather city =
        [''status'' \<mapsto> ''success'',
         ''report'' \<mapsto> ''The weather in New York is sunny with a temperature of 25 degrees Celsius (77 degrees Fahrenheit).'']) \<and>
   (\<not> equal_ignoring_case city ''new york'' \<longrightarrow>
      get_weather city =
        [''status'' \<mapsto> ''error'',
         ''error_message'' \<mapsto> ''Weather information for '' @ squote @ city @ squote @ '' is not available.''])"
  unfolding lower_eq_new_york [symmetric] get_weather_def by simp

theorem get_weather_contract_witness:
  "equal_ignoring_case ''New York'' ''new york'' \<and>
   get_weather ''New York'' =
     [''status'' \<mapsto> ''success'',
      ''report'' \<mapsto> ''The weather in New York is sunny with a temperature of 25 degrees Celsius (77 degrees Fahrenheit).''] \<and>
   \<not> equal_ignoring_case ''Paris'' ''new york'' \<and>
   get_weather ''Paris'' =
     [''status'' \<mapsto> ''error'',
      ''error_message'' \<mapsto> ''Weather information for 'Paris' is not available.'']"
proof -
  have a: "equal_ignoring_case ''New York'' ''new york''"
    by (simp add: equal_ignoring_case_def either_case_def)
  have b: "\<not> equal_ignoring_case ''Paris'' ''new york''"
    by (simp add: equal_ignoring_case_def)
  show ?thesis
    using a b get_weather_contract [of "''New York''"] get_weather_contract [of "''Paris''"]
    by simp
qed

text \<open>
  C2. \<^verbatim>\<open>get_current_time(city)\<close> succeeds exactly when \<open>city\<close> equals
  \<^verbatim>\<open>new york\<close> up to case; the report is then non-empty and holds the time of the zone
  \<^verbatim>\<open>America/New_York\<close> in the format \<^verbatim>\<open>%Y-%m-%d %H:%M:%S %Z%z\<close>. Otherwise the result
  is the error record, and its message contains \<open>city\<close> as it was given.
\<close>

theorem get_current_time_contract:
  "(equal_ignoring_case city ''new york'' \<longrightarrow>
      get_current_time clk city =
        [''status'' \<mapsto> ''success'',
         ''report'' \<mapsto> ''The current time in '' @ city @ '' is ''
            @ strftime clk (now clk (ZoneInfo clk ''America/New_York'')) ''%Y-%m-%d %H:%M:%S %Z%z''] \<and>
      the (get_current_time clk city ''report'') \<noteq> []) \<and>
   (\<not> equal_ignoring_case city ''new york'' \<longrightarrow>
      get_current_time clk city =
        [''status'' \<mapsto> ''error'',
         ''error_message'' \<mapsto> ''Sorry, I don't have timezone information for '' @ city @ ''.''] \<and>
      sublist city (the (get_current_time clk city ''error_message'')))"
proof -
  have "sublist city (''Sorry, I don't have timezone information for '' @ city @ ''.'')"
    by (rule sublist_middle)
  then show ?thesis
    unfolding lower_eq_new_york [symmetric] get_current_time_def
    by (simp add: Let_def)
qed

theorem get_current_time_contract_witness:
  "equal_ignoring_case ''NEW YORK'' ''new york'' \<and>
   get_current_time sample_clock ''NEW YORK'' =
     [''status'' \<mapsto> ''success'',
      ''report'' \<mapsto> ''The current time in NEW YORK is 2025-11-04 09:30:00 EST-0500''] \<and>
   \<not> equal_ignoring_case ''London'' ''new york'' \<and>
   get_current_time sample_clock ''London'' =
     [''status'' \<mapsto> ''error'',
      ''error_message'' \<mapsto> ''Sorry, I don't have timezone information for London.'']"
proof -
  have a: "equal_ignoring_case ''NEW YORK'' ''new york''"
    by (simp add: equal_ignoring_case_def either_case_def)
  have b: "\<not> equal_ignoring_case ''London'' ''new york''"
    by (simp add: equal_ignoring_case_def)
  show ?thesis
    using a b get_current_time_contract [of "''NEW YORK''" sample_clock]
      get_current_time_contract [of "''London''" sample_clock]
    by (simp add: sample_clock_def)
qed

text \<open>
  C3. Every record either tool returns satisfies the ToolResult invariant: the status is
  \<^verbatim>\<open>success\<close> or \<^verbatim>\<open>error\<close>, the key \<^verbatim>\<open>report\<close> is present exactly on success,
  the key \<^verbatim>\<open>error_message\<close> exactly on error, and never both.
\<close>

theorem tool_results_invariant:
  "tool_result_invariant (get_weather city) \<and> tool_result_invariant (get_current_time clk city)"
  unfolding tool_result_invariant_def get_weather_def get_current_time_def
  by (simp add: Let_def)

text \<open>
  C8. \<^verbatim>\<open>say_hello(name)\<close> returns a greeting that contains \<open>name\<close>, and
  \<^verbatim>\<open>say_hello()\<close> one that contains \<^verbatim>\<open>there\<close>; the function has no other outcome.
\<close>

theorem say_hello_greets:
  "snd (say_hello (Some nm)) = ''Hello, '' @ nm @ ''!'' \<and>
   sublist nm (snd (say_hello (Some nm))) \<and>
   snd (say_hello None) = ''Hello, there!'' \<and>
   sublist ''there'' (snd (say_hello None))"
proof -
  have "sublist nm (''Hello, '' @ nm @ ''!'')" for nm :: string
    by (rule sublist_middle)
  from this [of nm] this [of "''there''"] show ?thesis
    by (simp add: say_hello_def)
qed

text \<open>
  C10. For every accepted spelling \<open>s\<close> of the city, the report of
  \<^verbatim>\<open>get_current_time(s)\<close> contains \<open>s\<close> with the casing the caller used, and the zone is
  \<^verbatim>\<open>America/New_York\<close>.
\<close>

theorem get_current_time_keeps_casing:
  assumes "lower s = ''new york''"
  shows "get_current_time clk s ''status'' = Some ''success'' \<and>
         get_current_time clk s ''report'' =
           Some (''The current time in '' @ s @ '' is ''
                 @ strftime clk (now clk (ZoneInfo clk ''America/New_York'')) ''%Y-%m-%d %H:%M:%S %Z%z'') \<and>
         sublist s (the (get_current_time clk s ''report''))"
proof -
  have "sublist s (''The current time in '' @ s @ '' is ''
          @ strftime clk (now clk (ZoneInfo clk ''America/New_York'')) ''%Y-%m-%d %H:%M:%S %Z%z'')"
    by (rule sublist_middle)
  then show ?thesis
    using assms unfolding get_current_time_def by (simp add: Let_def)
qed

theorem get_current_time_keeps_casing_witness:
  "lower ''nEw YoRk'' = ''new york'' \<and>
   get_current_time sample_clock ''nEw YoRk'' ''report'' =
     Some ''The current time in nEw YoRk is 2025-11-04 09:30:00 EST-0500''"
proof -
  have a: "lower ''nEw YoRk'' = ''new york''"
    by (simp add: lower_def lower_char_def char_of_eq_iff)
  show ?thesis
    using a get_current_time_keeps_casing [OF a, of sample_clock]
    by (simp add: sample_clock_def)
qed

section \<open>The run loop of one turn\<close>

lemma event_loop_skip:
  "(\<forall>j<k. \<exists>ev. r (i + j) = Yield ev \<and> \<not> is_final_response ev) \<Longrightarrow>
     event_loop (k + fuel) r i txt = event_loop fuel r (i + k) txt"
proof (induction k arbitrary: i)
  case 0
  then show ?case by simp
next
  case (Suc k)
  from Suc.prems have "\<exists>ev. r (i + 0) = Yield ev \<and> \<not> is_final_response ev" by blast
  then obtain ev where ev: "r i = Yield ev" "\<not> is_final_response ev" by auto
  have "\<forall>j<k. \<exists>ev. r (Suc i + j) = Yield ev \<and> \<not> is_final_response ev"
  proof (intro allI impI)
    fix j assume "j < k"
    then have "Suc j < Suc k" by simp
    with Suc.prems have "\<exists>ev. r (i + Suc j) = Yield ev \<and> \<not> is_final_response ev" by blast
    then show "\<exists>ev. r (Suc i + j) = Yield ev \<and> \<not> is_final_response ev" by simp
  qed
  then have "event_loop (k + fuel) r (Suc i) txt = event_loop fuel r (Suc i + k) txt"
    by (rule Suc.IH)
  with ev show ?case by simp
qed

lemma skips_iff:
  "skips r k \<longleftrightarrow> (\<forall>j<k. \<exists>ev. r j = Yield ev \<and> \<not> is_final_response ev)"
proof -
  have "(case r j of Yield ev \<Rightarrow> \<not> is_final_response ev | StopAsyncIteration \<Rightarrow> False
          | Raises x \<Rightarrow> False) \<longleftrightarrow> (\<exists>ev. r j = Yield ev \<and> \<not> is_final_response ev)" for j
    by (cases "r j") simp_all
  then show ?thesis
    unfolding skips_def list_all_iff by auto
qed

lemma event_loop_reaches:
  assumes "skips r k" and "k < fuel"
  shows "event_loop fuel r 0 txt =
           (case r k of
              StopAsyncIteration \<Rightarrow> Return txt
            | Raises x \<Rightarrow> Raise x
            | Yield ev \<Rightarrow> if is_final_response ev then Return (on_final_response ev txt)
                          else event_loop (fuel - Suc k) r (Suc k) txt)"
proof -
  from assms(2) obtain m where fuel: "fuel = k + Suc m"
    by (metis less_imp_Suc_add add_Suc_right)
  from assms(1) have "\<forall>j<k. \<exists>ev. r (0 + j) = Yield ev \<and> \<not> is_final_response ev"
    by (simp add: skips_iff)
  then have "event_loop (k + Suc m) r 0 txt = event_loop (Suc m) r (0 + k) txt"
    by (rule event_loop_skip)
  then have "event_loop fuel r 0 txt = event_loop (Suc m) r k txt"
    by (simp only: fuel add_0)
  moreover have "fuel - Suc k = m" by (simp add: fuel)
  ultimately show ?thesis by (simp only: event_loop.simps)
qed

text \<open>
  A run that never yields a final event, never stops and never raises keeps the loop going:
  whatever the budget, only the query line has been printed.
\<close>

lemma endless_loop: "event_loop fuel (endless_runner u s q) k txt = OutOfFuel"
  by (induction fuel arbitrary: k) (simp_all add: endless_runner_def thinking_event_def)

lemma endless_run_never_answers:
  "call_agent_async fuel query endless_runner user_id session_id =
     ([Out (newline # ''>>> User Query: '' @ query)], OutOfFuel)"
  by (simp add: call_agent_async_def endless_loop)

text \<open>
  C4, as stated, fails. An exception that is not an instance of \<^verbatim>\<open>Exception\<close> passes
  through \<^verbatim>\<open>except Exception\<close>: the cancelled run leaves \<^verbatim>\<open>call_agent_async\<close> by
  \<^verbatim>\<open>CancelledError\<close> and no response is printed. And for a final event that escalates
  and whose first part has no text, the response is \<^verbatim>\<open>None\<close>, not the escalation
  message.
\<close>

theorem call_agent_async_counterexample:
  "call_agent_async 5 ''Hello there!'' cancelled_runner ''user_1'' ''session_001'' =
     ([Out (newline # ''>>> User Query: Hello there!'')], Raise CancelledError) \<and>
   call_agent_async 5 ''Hello there!'' textless_runner ''user_1'' ''session_001'' =
     ([Out (newline # ''>>> User Query: Hello there!''), Out ''<<< Agent Response: None''],
      Return ())"
  by (simp add: call_agent_async_def cancelled_runner_def textless_runner_def
      textless_escalating_event_def on_final_response_def first_part_def
      numeral_eq_Suc)

text \<open>
  C4, amended. Let the run pass by \<open>k\<close> events that are not final and let the budget
  reach item \<open>k\<close>. Then \<^verbatim>\<open>call_agent_async\<close> prints the query line and exactly one
  response line, and returns, in each of these cases:
  \<^item> item \<open>k\<close> is a final event whose content has a non-empty part list and whose first
    part has text: the response is that text;
  \<^item> item \<open>k\<close> is a final event whose content is absent or has no parts, and the event
    escalates: the response is \<^verbatim>\<open>Agent escalated:\<close> with the event's error message, or
    \<^verbatim>\<open>No specific message.\<close> when it has none;
  \<^item> item \<open>k\<close> is a final event whose content is absent or has no parts, and the event
    does not escalate: the response is the default string;
  \<^item> the run stops at item \<open>k\<close>: the response is the default string;
  \<^item> the run raises an instance of \<^verbatim>\<open>Exception\<close> at item \<open>k\<close>: the response is
    \<^verbatim>\<open>Error during agent execution:\<close> followed by \<^verbatim>\<open>str(e)\<close>.

  An exception outside \<^verbatim>\<open>Exception\<close> raised at item \<open>k\<close> propagates after the query
  line. A final event whose first part has no text is not among the cases.
\<close>

theorem call_agent_async_response:
  assumes "skips (rnr user_id session_id query) k" and "k < fuel"
  shows
    "(\<forall>ev p t. rnr user_id session_id query k = Yield ev \<and> is_final_response ev \<and>
         first_part ev = Some p \<and> part_text p = Some t \<longrightarrow>
       call_agent_async fuel query rnr user_id session_id =
         ([Out (newline # ''>>> User Query: '' @ query), Out (''<<< Agent Response: '' @ t)],
          Return ())) \<and>
     (\<forall>ev. rnr user_id session_id query k = Yield ev \<and> is_final_response ev \<and>
         first_part ev = None \<and> escalates ev \<longrightarrow>
       call_agent_async fuel query rnr user_id session_id =
         ([Out (newline # ''>>> User Query: '' @ query),
           Out (''<<< Agent Response: '' @ ''Agent escalated: '' @ error_message_or_default ev)],
          Return ())) \<and>
     (\<forall>ev. rnr user_id session_id query k = Yield ev \<and> is_final_response ev \<and>
         first_part ev = None \<and> \<not> escalates ev \<longrightarrow>
       call_agent_async fuel query rnr user_id session_id =
         ([Out (newline # ''>>> User Query: '' @ query),
           Out (''<<< Agent Response: '' @ ''Agent did not produce a final response.'')],
          Return ())) \<and>
     (rnr user_id session_id query k = StopAsyncIteration \<longrightarrow>
       call_agent_async fuel query rnr user_id session_id =
         ([Out (newline # ''>>> User Query: '' @ query),
           Out (''<<< Agent Response: '' @ ''Agent did not produce a final response.'')],
          Return ())) \<and>
     (\<forall>cls msg. rnr user_id session_id query k = Raises (Exception cls msg) \<longrightarrow>
       call_agent_async fuel query rnr user_id session_id =
         ([Out (newline # ''>>> User Query: '' @ query),
           Out (''<<< Agent Response: '' @ ''Error during agent execution: '' @ msg)],
          Return ())) \<and>
     (\<forall>x. rnr user_id session_id query k = Raises x \<and> \<not> is_Exception x \<longrightarrow>
       call_agent_async fuel query rnr user_id session_id =
         ([Out (newline # ''>>> User Query: '' @ query)], Raise x))"
proof -
  note loop = event_loop_reaches [OF assms, of "Some ''Agent did not produce a final response.''"]
  show ?thesis
    unfolding call_agent_async_def Let_def loop
    by (auto simp add: on_final_response_def split: exn.splits)
qed

theorem call_agent_async_response_witness:
  "call_agent_async 5 ''Hello there!'' answering_runner ''user_1'' ''session_001'' =
     ([Out (newline # ''>>> User Query: Hello there!''), Out ''<<< Agent Response: Hello, there!''],
      Return ()) \<and>
   call_agent_async 5 ''Hello there!'' escalating_runner ''user_1'' ''session_001'' =
     ([Out (newline # ''>>> User Query: Hello there!''),
       Out ''<<< Agent Response: Agent escalated: quota exceeded''], Return ()) \<and>
   call_agent_async 5 ''Hello there!'' empty_runner ''user_1'' ''session_001'' =
     ([Out (newline # ''>>> User Query: Hello there!''),
       Out ''<<< Agent Response: Agent did not produce a final response.''], Return ()) \<and>
   call_agent_async 5 ''Hello there!'' silent_runner ''user_1'' ''session_001'' =
     ([Out (newline # ''>>> User Query: Hello there!''),
       Out ''<<< Agent Response: Agent did not produce a final response.''], Return ()) \<and>
   call_agent_async 5 ''Hello there!'' failing_runner ''user_1'' ''session_001'' =
     ([Out (newline # ''>>> User Query: Hello there!''),
       Out ''<<< Agent Response: Error during agent execution: Session not found''], Return ())"
proof -
  have a: "skips (answering_runner ''user_1'' ''session_001'' ''Hello there!'') 1"
    by (simp add: skips_def answering_runner_def thinking_event_def)
  have b: "skips (escalating_runner ''user_1'' ''session_001'' ''Hello there!'') 0"
    by (simp add: skips_def)
  have c: "skips (empty_runner ''user_1'' ''session_001'' ''Hello there!'') 0"
    by (simp add: skips_def)
  have d: "skips (silent_runner ''user_1'' ''session_001'' ''Hello there!'') 1"
    by (simp add: skips_def silent_runner_def thinking_event_def)
  have e: "skips (failing_runner ''user_1'' ''session_001'' ''Hello there!'') 0"
    by (simp add: skips_def)
  have f: "(1::nat) < 5" "(0::nat) < 5" by simp_all
  show ?thesis
    using
      call_agent_async_response
        [of answering_runner "''user_1''" "''session_001''" "''Hello there!''" 1 5, OF a f(1)]
      call_agent_async_response
        [of escalating_runner "''user_1''" "''session_001''" "''Hello there!''" 0 5, OF b f(2)]
      call_agent_async_response
        [of empty_runner "''user_1''" "''session_001''" "''Hello there!''" 0 5, OF c f(2)]
      call_agent_async_response
        [of silent_runner "''user_1''" "''session_001''" "''Hello there!''" 1 5, OF d f(1)]
      call_agent_async_response
        [of failing_runner "''user_1''" "''session_001''" "''Hello there!''" 0 5, OF e f(2)]
    by (simp add: answering_runner_def escalating_runner_def empty_runner_def silent_runner_def
        failing_runner_def hello_event_def escalating_event_def empty_event_def
        first_part_def escalates_def error_message_or_default_def)
qed


section \<open>Agent descriptors\<close>

text \<open>
  C5. If either sub-agent is absent, \<^verbatim>\<open>create_root_agent\<close> prints its message and
  returns \<^verbatim>\<open>None\<close> without raising; and every root descriptor it returns has both
  sub-agents, in the order greeting, farewell.
\<close>

theorem create_root_agent_guard:
  "(greeting_agent = None \<or> farewell_agent = None \<longrightarrow>
      create_root_agent w greeting_agent farewell_agent =
        ([Marked CROSS_MARK
            '' Cannot create root agent because one or more sub-agents are missing.''],
         Return None)) \<and>
   (\<forall>root. snd (create_root_agent w greeting_agent farewell_agent) = Return (Some root) \<longrightarrow>
      (\<exists>g f. greeting_agent = Some g \<and> farewell_agent = Some f \<and> sub_agents root = [g, f]))"
  unfolding create_root_agent_def Let_def root_descriptor_def
  by (auto split: option.splits exn.splits)

theorem create_root_agent_guard_witness:
  "create_root_agent quiet_world None (Some farewell_descriptor) =
     ([Marked CROSS_MARK
         '' Cannot create root agent because one or more sub-agents are missing.''],
      Return None) \<and>
   create_root_agent quiet_world (Some greeting_descriptor) None =
     ([Marked CROSS_MARK
         '' Cannot create root agent because one or more sub-agents are missing.''],
      Return None) \<and>
   snd (create_root_agent quiet_world (Some greeting_descriptor) (Some farewell_descriptor)) =
     Return (Some (root_descriptor greeting_descriptor farewell_descriptor)) \<and>
   sub_agents (root_descriptor greeting_descriptor farewell_descriptor) =
     [greeting_descriptor, farewell_descriptor]"
proof -
  have r: "snd (create_root_agent quiet_world (Some greeting_descriptor)
             (Some farewell_descriptor)) =
           Return (Some (root_descriptor greeting_descriptor farewell_descriptor))"
    by (simp add: create_root_agent_def quiet_world_def Let_def)
  show ?thesis
    using r
      create_root_agent_guard [of None "Some farewell_descriptor" quiet_world]
      create_root_agent_guard [of "Some greeting_descriptor" None quiet_world]
      create_root_agent_guard [of "Some greeting_descriptor" "Some farewell_descriptor" quiet_world]
    by simp
qed


section \<open>The process\<close>

text \<open>
  C7. If \<^verbatim>\<open>GOOGLE_API_KEY\<close> is unset after the \<^verbatim>\<open>.env\<close> file has been loaded, the
  module body raises \<^verbatim>\<open>ValueError\<close>: nothing has been printed, the outcome does not
  depend on the framework (no agent was constructed, no query sent), and the exit status
  is 1.
\<close>

theorem missing_api_key_is_fatal:
  assumes "load_dotenv dotenv_file env ''GOOGLE_API_KEY'' = None"
  shows "script fuel dotenv_file env w =
           ([], Raise (Exception ''ValueError''
              ''Missing GOOGLE_API_KEY environment variable. Please set it in a .env file or your environment.'')) \<and>
         exit_status (snd (script fuel dotenv_file env w)) = Some 1"
  using assms by (simp add: script_def)

theorem missing_api_key_is_fatal_witness:
  "load_dotenv no_variables no_variables ''GOOGLE_API_KEY'' = None \<and>
   script 5 no_variables no_variables quiet_world =
     ([], Raise (Exception ''ValueError''
        ''Missing GOOGLE_API_KEY environment variable. Please set it in a .env file or your environment.'')) \<and>
   exit_status (snd (script 5 no_variables no_variables quiet_world)) = Some 1"
proof -
  have a: "load_dotenv no_variables no_variables ''GOOGLE_API_KEY'' = None"
    by (simp add: load_dotenv_def no_variables_def)
  show ?thesis
    using a missing_api_key_is_fatal [OF a, of 5 quiet_world] by simp
qed

text \<open>
  C6, as stated, fails. Without the key the process ends with status 1, before
  \<^verbatim>\<open>main\<close> is entered; and an interrupt raised during the conversation is not an
  \<^verbatim>\<open>Exception\<close>, passes through the handler of \<^verbatim>\<open>main\<close> and ends the process
  with status 130.
\<close>

theorem exit_code_counterexample:
  "exit_status (snd (script 5 no_variables no_variables quiet_world)) = Some 1 \<and>
   snd (main 5 interrupted_world) = Raise KeyboardInterrupt \<and>
   exit_status (snd (script 5 no_variables key_in_environ interrupted_world)) = Some 130"
proof -
  have r: "snd (run_team_conversation 5 interrupted_world) = Raise KeyboardInterrupt"
    by (simp add: run_team_conversation_def and_then_def print_def create_greeting_agent_def
        create_farewell_agent_def create_root_agent_def interrupted_world_def raising_def
        call_agent_async_def interrupted_runner_def numeral_eq_Suc Let_def)
  then have m: "snd (main 5 interrupted_world) = Raise KeyboardInterrupt"
    by (cases "run_team_conversation 5 interrupted_world") (simp add: main_def)
  show ?thesis
    using m by (simp add: script_def load_dotenv_def no_variables_def key_in_environ_def)
qed

text \<open>
  C6, amended. With a non-empty \<^verbatim>\<open>GOOGLE_API_KEY\<close>: when the conversation raises an
  instance of \<^verbatim>\<open>Exception\<close>, \<^verbatim>\<open>main\<close> prints
  \<^verbatim>\<open>An error occurred in the main execution:\<close> with \<^verbatim>\<open>str(e)\<close> and returns, and
  the exit status is 0, as it is when the conversation returns; an exception outside
  \<^verbatim>\<open>Exception\<close> leaves \<^verbatim>\<open>main\<close>.
\<close>

theorem main_catches_Exception:
  assumes "load_dotenv dotenv_file env ''GOOGLE_API_KEY'' = Some key" and "key \<noteq> []"
  shows
    "(\<forall>out cls msg. run_team_conversation fuel w = (out, Raise (Exception cls msg)) \<longrightarrow>
        script fuel dotenv_file env w =
          (out @ [Out (''An error occurred in the main execution: '' @ msg)], Return ()) \<and>
        exit_status (snd (script fuel dotenv_file env w)) = Some 0) \<and>
     (\<forall>out. run_team_conversation fuel w = (out, Return ()) \<longrightarrow>
        script fuel dotenv_file env w = (out, Return ()) \<and>
        exit_status (snd (script fuel dotenv_file env w)) = Some 0) \<and>
     (\<forall>out x. run_team_conversation fuel w = (out, Raise x) \<and> \<not> is_Exception x \<longrightarrow>
        script fuel dotenv_file env w = (out, Raise x))"
  using assms unfolding script_def main_def Let_def
  by (auto split: exn.splits)

theorem main_catches_Exception_witness:
  "script 5 no_variables key_in_environ broken_session_world =
     ([Out (newline # ''--- Testing Agent Team Delegation ---''),
       created_line greeting_descriptor, created_line farewell_descriptor,
       RootAgentCreated ''weather_agent_team'' [''greeting_agent'', ''farewell_agent''],
       Out ''An error occurred in the main execution: session store unavailable''],
      Return ()) \<and>
   exit_status (snd (script 5 no_variables key_in_environ broken_session_world)) = Some 0"
proof -
  have k: "load_dotenv no_variables key_in_environ ''GOOGLE_API_KEY'' = Some ''secret''"
    by (simp add: load_dotenv_def no_variables_def key_in_environ_def)
  have n: "''secret'' \<noteq> []" by simp
  have r: "run_team_conversation 5 broken_session_world =
     ([Out (newline # ''--- Testing Agent Team Delegation ---''),
       created_line greeting_descriptor, created_line farewell_descriptor,
       RootAgentCreated ''weather_agent_team'' [''greeting_agent'', ''farewell_agent'']],
      Raise (Exception ''RuntimeError'' ''session store unavailable''))"
    by (simp add: run_team_conversation_def and_then_def print_def create_greeting_agent_def
        create_farewell_agent_def create_root_agent_def broken_session_world_def raising_def
        root_descriptor_def greeting_descriptor_def farewell_descriptor_def Let_def)
  show ?thesis
    using r main_catches_Exception [OF k n, of 5 broken_session_world] by simp
qed


section \<open>The order of the turns\<close>

lemma fst_and_then:
  "fst (and_then m k) =
     fst m @ (case snd m of Return a \<Rightarrow> fst (k a) | Raise x \<Rightarrow> [] | OutOfFuel \<Rightarrow> [])"
  unfolding and_then_def
  by (cases m) (auto split: res.splits prod.splits)

lemma sequential_turns_Nil: "filter is_turn_line out = [] \<Longrightarrow> sequential_turns out"
  unfolding sequential_turns_def by simp

lemma sequential_turns_after:
  assumes "filter is_turn_line (fst m) = []"
    and "\<And>a. sequential_turns (fst (k a))"
  shows "sequential_turns (fst (and_then m k))"
proof (cases "snd m")
  case (Return a)
  with assms(1) have "filter is_turn_line (fst (and_then m k)) = filter is_turn_line (fst (k a))"
    by (simp add: fst_and_then)
  with assms(2) [of a] show ?thesis unfolding sequential_turns_def by simp
next
  case (Raise x)
  with assms(1) show ?thesis by (simp add: fst_and_then sequential_turns_Nil)
next
  case OutOfFuel
  with assms(1) show ?thesis by (simp add: fst_and_then sequential_turns_Nil)
qed

lemma call_agent_async_lines:
  "(\<exists>t. call_agent_async fuel query rnr user_id session_id =
          ([query_line query, response_line t], Return ())) \<or>
   (\<exists>r. call_agent_async fuel query rnr user_id session_id = ([query_line query], r) \<and>
        r \<noteq> Return ())"
  unfolding call_agent_async_def Let_def query_line_def response_line_def
  by (auto split: res.splits exn.splits)

lemma is_turn_line_query: "is_turn_line (query_line q)"
  by (simp add: query_line_def)

lemma is_turn_line_response: "is_turn_line (response_line t)"
  by (simp add: response_line_def)

lemma three_turns:
  fixes c1 c2 c3 :: "unit io"
  assumes "(\<exists>t. c1 = ([query_line q1, response_line t], Return ())) \<or>
           (\<exists>r. c1 = ([query_line q1], r) \<and> r \<noteq> Return ())"
    and "(\<exists>t. c2 = ([query_line q2, response_line t], Return ())) \<or>
         (\<exists>r. c2 = ([query_line q2], r) \<and> r \<noteq> Return ())"
    and "(\<exists>t. c3 = ([query_line q3, response_line t], Return ())) \<or>
         (\<exists>r. c3 = ([query_line q3], r) \<and> r \<noteq> Return ())"
  shows "\<exists>t1 t2 t3. prefix (filter is_turn_line (fst (and_then c1 (\<lambda>_. and_then c2 (\<lambda>_. c3)))))
           [query_line q1, response_line t1, query_line q2, response_line t2,
            query_line q3, response_line t3]"
proof -
  have stop: "(case r of Return a \<Rightarrow> f a | Raise x \<Rightarrow> [] | OutOfFuel \<Rightarrow> []) = []"
    if "r \<noteq> Return ()" for r :: "unit res" and f :: "unit \<Rightarrow> line list"
    using that by (cases r) simp_all
  from assms(1) show ?thesis
  proof (elim disjE exE conjE)
    fix r assume "c1 = ([query_line q1], r)" "r \<noteq> Return ()"
    then show ?thesis
      by (simp add: fst_and_then stop is_turn_line_query)
  next
    fix t1 assume c1: "c1 = ([query_line q1, response_line t1], Return ())"
    from assms(2) show ?thesis
    proof (elim disjE exE conjE)
      fix r assume "c2 = ([query_line q2], r)" "r \<noteq> Return ()"
      with c1 have "filter is_turn_line (fst (and_then c1 (\<lambda>_. and_then c2 (\<lambda>_. c3)))) =
          [query_line q1, response_line t1, query_line q2]"
        by (simp add: fst_and_then stop is_turn_line_query is_turn_line_response)
      then show ?thesis by auto
    next
      fix t2 assume c2: "c2 = ([query_line q2, response_line t2], Return ())"
      from assms(3) show ?thesis
      proof (elim disjE exE conjE)
        fix r assume "c3 = ([query_line q3], r)" "r \<noteq> Return ()"
        with c1 c2 have "filter is_turn_line (fst (and_then c1 (\<lambda>_. and_then c2 (\<lambda>_. c3)))) =
            [query_line q1, response_line t1, query_line q2, response_line t2, query_line q3]"
          by (simp add: fst_and_then stop is_turn_line_query is_turn_line_response)
        then show ?thesis by auto
      next
        fix t3 assume "c3 = ([query_line q3, response_line t3], Return ())"
        with c1 c2 have "filter is_turn_line (fst (and_then c1 (\<lambda>_. and_then c2 (\<lambda>_. c3)))) =
            [query_line q1, response_line t1, query_line q2, response_line t2,
             query_line q3, response_line t3]"
          by (simp add: fst_and_then is_turn_line_query is_turn_line_response)
        then show ?thesis by (metis prefix_order.order_refl)
      qed
    qed
  qed
qed

lemma create_greeting_agent_quiet: "filter is_turn_line (fst (create_greeting_agent w)) = []"
  unfolding create_greeting_agent_def created_line_def
  by (auto split: option.splits exn.splits)

lemma create_farewell_agent_quiet: "filter is_turn_line (fst (create_farewell_agent w)) = []"
  unfolding create_farewell_agent_def created_line_def
  by (auto split: option.splits exn.splits)

lemma create_root_agent_quiet: "filter is_turn_line (fst (create_root_agent w g f)) = []"
  unfolding create_root_agent_def Let_def
  by (auto split: option.splits exn.splits)

lemma raising_quiet: "filter is_turn_line (fst (raising fault)) = []"
  unfolding raising_def by (auto split: option.splits)

text \<open>
  C9. In every driver run, whatever the framework does and however far the run has got,
  the query line of a turn is printed only after the response line of the turn before:
  the turns do not overlap and keep the order of the three queries.
\<close>

theorem turns_are_sequential:
  "sequential_turns (fst (run_team_conversation fuel w))"
  unfolding run_team_conversation_def
proof (intro sequential_turns_after)
  show "filter is_turn_line
          (fst (print (Out (newline # ''--- Testing Agent Team Delegation ---'')))) = []"
    by (simp add: print_def)
next
  show "filter is_turn_line (fst (create_greeting_agent w)) = []"
    by (rule create_greeting_agent_quiet)
next
  show "filter is_turn_line (fst (create_farewell_agent w)) = []"
    by (rule create_farewell_agent_quiet)
next
  fix greeting_agent farewell_agent
  show "filter is_turn_line (fst (create_root_agent w greeting_agent farewell_agent)) = []"
    by (rule create_root_agent_quiet)
next
  fix root_agent :: "Agent option"
  let ?u = "''user_1_agent_team''" and ?s = "''session_001_agent_team''"
  let ?talk = "and_then (call_agent_async fuel ''Hello there!''
                      (run_async w (the root_agent) []) ?u ?s) (\<lambda>_.
          and_then (call_agent_async fuel ''What is the weather in New York?''
                      (run_async w (the root_agent) [''Hello there!'']) ?u ?s) (\<lambda>_.
          call_agent_async fuel ''Thanks, bye!''
            (run_async w (the root_agent)
               [''Hello there!'', ''What is the weather in New York?''])
            ?u ?s))"
  have talk: "sequential_turns (fst ?talk)"
    unfolding sequential_turns_def
    by (rule three_turns) (rule call_agent_async_lines)+
  show "sequential_turns (fst (
       if root_agent = None
       then print (Out ''Cannot run conversation without a properly configured root agent.'')
       else
         (let app_name = ''weather_tutorial_agent_team'';
              user_id = ''user_1_agent_team'';
              session_id = ''session_001_agent_team''
          in
          and_then (raising (create_session_raises w)) (\<lambda>_.
          and_then (print (Out (''Session created: App='' @ squote @ app_name @ squote
                                 @ '', User='' @ squote @ user_id @ squote
                                 @ '', Session='' @ squote @ session_id @ squote))) (\<lambda>_.
          and_then (raising (Runner_raises w)) (\<lambda>_.
          and_then (print (Out (''Runner created for agent '' @ squote
                                 @ name (the root_agent) @ squote @ ''.''))) (\<lambda>_.
          and_then (call_agent_async fuel ''Hello there!''
                      (run_async w (the root_agent) []) user_id session_id) (\<lambda>_.
          and_then (call_agent_async fuel ''What is the weather in New York?''
                      (run_async w (the root_agent) [''Hello there!'']) user_id session_id) (\<lambda>_.
          call_agent_async fuel ''Thanks, bye!''
            (run_async w (the root_agent)
               [''Hello there!'', ''What is the weather in New York?''])
            user_id session_id)))))))))"
  proof (cases "root_agent = None")
    case True
    then show ?thesis by (simp add: print_def sequential_turns_Nil)
  next
    case False
    have "sequential_turns (fst (
          and_then (raising (create_session_raises w)) (\<lambda>_.
          and_then (print (Out (''Session created: App='' @ squote @ ''weather_tutorial_agent_team'' @ squote
                                 @ '', User='' @ squote @ ?u @ squote
                                 @ '', Session='' @ squote @ ?s @ squote))) (\<lambda>_.
          and_then (raising (Runner_raises w)) (\<lambda>_.
          and_then (print (Out (''Runner created for agent '' @ squote
                                 @ name (the root_agent) @ squote @ ''.''))) (\<lambda>_. ?talk))))))"
    proof (rule sequential_turns_after, rule raising_quiet,
        rule sequential_turns_after, simp add: print_def,
        rule sequential_turns_after, rule raising_quiet,
        rule sequential_turns_after, simp add: print_def)
      show "sequential_turns (fst ?talk)" by (rule talk)
    qed
    then show ?thesis by (simp only: False if_False Let_def)
  qed
qed

theorem turns_are_sequential_witness:
  "sequential_turns (fst (run_team_conversation 5 quiet_world)) \<and>
   filter is_turn_line (fst (run_team_conversation 5 quiet_world)) =
     [query_line ''Hello there!'', response_line ''Hello, there!'',
      query_line ''What is the weather in New York?'', response_line ''Hello, there!'',
      query_line ''Thanks, bye!'', response_line ''Hello, there!''] \<and>
   filter is_turn_line (fst (run_team_conversation 5 stalled_world)) =
     [query_line ''Hello there!'']"
proof -
  have a: "filter is_turn_line (fst (run_team_conversation 5 quiet_world)) =
     [query_line ''Hello there!'', response_line ''Hello, there!'',
      query_line ''What is the weather in New York?'', response_line ''Hello, there!'',
      query_line ''Thanks, bye!'', response_line ''Hello, there!'']"
    by (simp add: run_team_conversation_def and_then_def print_def create_greeting_agent_def
        create_farewell_agent_def create_root_agent_def quiet_world_def raising_def
        call_agent_async_def answering_runner_def thinking_event_def hello_event_def
        on_final_response_def first_part_def created_line_def query_line_def response_line_def
        numeral_eq_Suc Let_def)
  have b: "filter is_turn_line (fst (run_team_conversation 5 stalled_world)) =
     [query_line ''Hello there!'']"
    by (simp add: run_team_conversation_def and_then_def print_def create_greeting_agent_def
        create_farewell_agent_def create_root_agent_def stalled_world_def raising_def
        endless_run_never_answers created_line_def query_line_def Let_def)
  show ?thesis
    using a b turns_are_sequential [of 5 quiet_world] by simp
qed

end
